theory Spec2Isabelle
  imports Complex_Main "HOL-Library.Word"
begin

unbundle bit_operations_syntax

section \<open>Drawing routines for software surfaces (sdl2/ext/draw.py)\<close>

text \<open>
  A shallow embedding of \<^verbatim>\<open>prepare_color\<close>, \<^verbatim>\<open>fill\<close> and \<^verbatim>\<open>line\<close>.
  Python integers are \<open>int\<close>; the float \<^verbatim>\<open>frac = pitch / bpp\<close> and the numbers the
  clipping helper returns are exact rationals (\<open>rat\<close>), which is what the floats hold
  as long as the values stay below \<open>2^53\<close> and the divisor is a power of two.
  An exception is a value of \<open>error\<close>. The drawing routines return nothing; what
  they do to the surface is the ordered list of the calls they make into SDL and of the
  direct stores into the pixel buffer (\<open>effect\<close>), which \<open>run_effects\<close> replays on the
  pixel memory.
\<close>

subsection \<open>Data\<close>

datatype error = TypeError | ValueError | IndexError | ZeroDivisionError | UnsupportedError

text \<open>\<^verbatim>\<open>rect.SDL_Rect(x, y, w, h)\<close>. The fields are C ints; the model keeps them
  unbounded, which agrees with the code for coordinates in the C int range.\<close>

datatype sdl_rect = SDL_Rect (rect_x: int) (rect_y: int) (rect_w: int) (rect_h: int)

text \<open>The channel layout of \<^verbatim>\<open>pixels.SDL_PixelFormat\<close>: masks, and for each channel the
  number of bits lost from the 8-bit value and the position it is shifted to.\<close>

record sdl_pixelformat =
  BytesPerPixel :: int
  Rmask :: "32 word"
  Gmask :: "32 word"
  Bmask :: "32 word"
  Amask :: "32 word"
  Rloss :: nat
  Gloss :: nat
  Bloss :: nat
  Aloss :: nat
  Rshift :: nat
  Gshift :: nat
  Bshift :: nat
  Ashift :: nat

text \<open>\<^verbatim>\<open>surface.SDL_Surface\<close>: the fields the drawing routines read. The pixel buffer
  itself is the memory that \<open>run_effects\<close> transforms.\<close>

record sdl_surface =
  format :: sdl_pixelformat
  surf_w :: int
  surf_h :: int
  pitch :: int
  clip_rect :: sdl_rect

text \<open>The color after \<^verbatim>\<open>convert_to_color\<close>: four 8-bit channels.\<close>

record color =
  col_r :: "8 word"
  col_g :: "8 word"
  col_b :: "8 word"
  col_a :: "8 word"

text \<open>What a caller may pass as \<^verbatim>\<open>target\<close>: a surface, a \<^verbatim>\<open>SoftwareSprite\<close> (which
  holds a surface), a ctypes pointer to a surface (its type name contains
  \<^verbatim>\<open>SDL_Surface\<close>), a bare pixel format, or anything else.\<close>

datatype target =
    Surface sdl_surface
  | Sprite sdl_surface
  | SurfacePtr sdl_surface
  | PixelFormat sdl_pixelformat
  | OtherTarget

text \<open>The Python values that reach \<^verbatim>\<open>fill\<close> as \<^verbatim>\<open>area\<close>: \<^verbatim>\<open>None\<close>, an integer, an
  \<^verbatim>\<open>SDL_Rect\<close> object, or a list or tuple of such values.\<close>

datatype pyval = PNone | PInt int | PRect sdl_rect | PSeq "pyval list"

text \<open>What a drawing call does to its surface, in order: the arguments of a call of
  \<^verbatim>\<open>SDL_FillRect(rtarget, rect, color)\<close> (\<open>None\<close> for the whole surface), of
  \<^verbatim>\<open>SDL_FillRects(rtarget, rects, count, color)\<close>, or a store \<^verbatim>\<open>pxbuf[i] = color\<close>.\<close>

datatype effect =
    FillRect "sdl_rect option" "32 word"
  | FillRects "sdl_rect list" nat "32 word"
  | PixelWrite int "32 word"

text \<open>The outcome of a drawing call: the exception it raised, if any, and the effects
  it had performed by then.\<close>

type_synonym outcome = "error option \<times> effect list"

subsection \<open>Collaborators that are not part of draw.py\<close>

text \<open>Modelled from the spec: \<^verbatim>\<open>convert_to_color\<close> (sdl2/ext/color.py) normalises a
  color to an (r,g,b,a) byte quadruple. The model takes colors in that form, on which it
  is the identity; the other encodings are outside the model.\<close>

definition convert_to_color :: "color \<Rightarrow> color" where
  "convert_to_color c = c"

text \<open>Modelled from the spec: \<^verbatim>\<open>SDL_MapRGB\<close> and \<^verbatim>\<open>SDL_MapRGBA\<close> (bound in
  sdl2/pixels.py) pack the channels according to the format's channel layout;
  \<^verbatim>\<open>SDL_MapRGB\<close> ignores alpha. Palette formats are outside the model.\<close>

definition pack_channel :: "nat \<Rightarrow> nat \<Rightarrow> 8 word \<Rightarrow> 32 word" where
  "pack_channel loss shift v = push_bit shift (drop_bit loss (ucast v))"

definition SDL_MapRGB :: "sdl_pixelformat \<Rightarrow> 8 word \<Rightarrow> 8 word \<Rightarrow> 8 word \<Rightarrow> 32 word" where
  "SDL_MapRGB f r g b =
     pack_channel (Rloss f) (Rshift f) r OR pack_channel (Gloss f) (Gshift f) g
       OR pack_channel (Bloss f) (Bshift f) b"

definition SDL_MapRGBA ::
  "sdl_pixelformat \<Rightarrow> 8 word \<Rightarrow> 8 word \<Rightarrow> 8 word \<Rightarrow> 8 word \<Rightarrow> 32 word" where
  "SDL_MapRGBA f r g b a =
     pack_channel (Rloss f) (Rshift f) r OR pack_channel (Gloss f) (Gshift f) g
       OR pack_channel (Bloss f) (Bshift f) b
       OR (pack_channel (Aloss f) (Ashift f) a AND Amask f)"

text \<open>Modelled from the spec: \<^verbatim>\<open>isiterable\<close> (sdl2/ext/compat.py) tells a sequence of
  areas from a single rectangle-like value: lists and tuples are iterable, an
  \<^verbatim>\<open>SDL_Rect\<close> object, a number and \<^verbatim>\<open>None\<close> are not.\<close>

fun isiterable :: "pyval \<Rightarrow> bool" where
  "isiterable (PSeq xs) = True"
| "isiterable v = False"

subsection \<open>Python primitives\<close>

text \<open>Truth value of an object in \<^verbatim>\<open>if area:\<close>.\<close>

fun truthy :: "pyval \<Rightarrow> bool" where
  "truthy PNone = False"
| "truthy (PInt n) = (n \<noteq> 0)"
| "truthy (PRect r) = True"
| "truthy (PSeq xs) = (xs \<noteq> [])"

text \<open>\<^verbatim>\<open>v[i]\<close>: \<^verbatim>\<open>IndexError\<close> past the end of a sequence, \<^verbatim>\<open>TypeError\<close> on a
  value that cannot be subscripted.\<close>

fun subscript :: "pyval \<Rightarrow> nat \<Rightarrow> error + pyval" where
  "subscript (PSeq xs) i = (if i < length xs then Inr (xs ! i) else Inl IndexError)"
| "subscript v i = Inl TypeError"

text \<open>\<^verbatim>\<open>int(v)\<close> on an area field: only a number converts.\<close>

fun int_of_pyval :: "pyval \<Rightarrow> error + int" where
  "int_of_pyval (PInt n) = Inr n"
| "int_of_pyval v = Inl TypeError"

text \<open>\<^verbatim>\<open>int(x)\<close> on a number truncates towards zero; \<^verbatim>\<open>int(None)\<close> raises
  \<^verbatim>\<open>TypeError\<close>.\<close>

definition trunc :: "rat \<Rightarrow> int" where
  "trunc q = (if 0 \<le> q then \<lfloor>q\<rfloor> else \<lceil>q\<rceil>)"

fun py_int :: "rat option \<Rightarrow> error + int" where
  "py_int None = Inl TypeError"
| "py_int (Some q) = Inr (trunc q)"

subsection \<open>\<^verbatim>\<open>_get_target_surface\<close> and \<^verbatim>\<open>prepare_color\<close>\<close>

fun get_target_surface :: "target \<Rightarrow> error + sdl_surface" where
  "get_target_surface (Surface s) = Inr s"
| "get_target_surface (Sprite s) = Inr s"
| "get_target_surface (SurfacePtr s) = Inr s"
| "get_target_surface t = Inl TypeError"

text \<open>\<^verbatim>\<open>pformat\<close> stays \<^verbatim>\<open>None\<close> unless the target is a pixel format, a surface or a
  sprite.\<close>

fun find_pformat :: "target \<Rightarrow> sdl_pixelformat option" where
  "find_pformat (PixelFormat f) = Some f"
| "find_pformat (Surface s) = Some (format s)"
| "find_pformat (Sprite s) = Some (format s)"
| "find_pformat t = None"

definition prepare_color :: "color \<Rightarrow> target \<Rightarrow> error + 32 word" where
  "prepare_color c target =
     (let color = convert_to_color c in
      case find_pformat target of
        None \<Rightarrow> Inl TypeError
      | Some pformat \<Rightarrow>
          if Amask pformat \<noteq> 0
          then Inr (SDL_MapRGBA pformat (col_r color) (col_g color) (col_b color) (col_a color))
          else Inr (SDL_MapRGB pformat (col_r color) (col_g color) (col_b color)))"

subsection \<open>\<^verbatim>\<open>fill\<close>\<close>

text \<open>The body of the \<^verbatim>\<open>try\<close>:
  \<^verbatim>\<open>SDL_Rect(int(r[0]), int(r[1]), int(r[2]), int(r[3]))\<close>.\<close>

definition int_field :: "pyval \<Rightarrow> nat \<Rightarrow> error + int" where
  "int_field r i = (case subscript r i of Inl e \<Rightarrow> Inl e | Inr v \<Rightarrow> int_of_pyval v)"

definition new_rect :: "pyval \<Rightarrow> error + sdl_rect" where
  "new_rect r =
     (case int_field r 0 of Inl e \<Rightarrow> Inl e | Inr a \<Rightarrow>
     (case int_field r 1 of Inl e \<Rightarrow> Inl e | Inr b \<Rightarrow>
     (case int_field r 2 of Inl e \<Rightarrow> Inl e | Inr c \<Rightarrow>
     (case int_field r 3 of Inl e \<Rightarrow> Inl e | Inr d \<Rightarrow> Inr (SDL_Rect a b c d)))))"

text \<open>One round of \<^verbatim>\<open>for r in area\<close>: a rectangle object is taken as it is, anything
  else is converted, and \<^verbatim>\<open>TypeError\<close>, \<^verbatim>\<open>ValueError\<close> and \<^verbatim>\<open>IndexError\<close> of the
  conversion are raised again as \<^verbatim>\<open>ValueError\<close>.\<close>

fun to_rect :: "pyval \<Rightarrow> error + sdl_rect" where
  "to_rect (PRect r) = Inr r"
| "to_rect r =
     (case new_rect r of
        Inl e \<Rightarrow> if e \<in> {TypeError, ValueError, IndexError} then Inl ValueError else Inl e
      | Inr q \<Rightarrow> Inr q)"

fun collect_rects :: "pyval list \<Rightarrow> sdl_rect list \<Rightarrow> error + sdl_rect list" where
  "collect_rects [] rects = Inr rects"
| "collect_rects (r # rest) rects =
     (case to_rect r of Inl e \<Rightarrow> Inl e | Inr q \<Rightarrow> collect_rects rest (rects @ [q]))"

text \<open>\<^verbatim>\<open>for r in area\<close> iterates the items of a sequence.\<close>

fun items :: "pyval \<Rightarrow> pyval list" where
  "items (PSeq xs) = xs"
| "items v = []"

text \<open>Lines 73 to 87: the list \<^verbatim>\<open>rects\<close>. A value that is not iterable, or whose
  first item is not, is wrapped into a one-item list.\<close>

definition area_rects :: "pyval \<Rightarrow> error + sdl_rect list" where
  "area_rects area =
     (if truthy area
      then (let area' = (if \<not> isiterable area \<or> \<not> isiterable (hd (items area))
                         then PSeq [area] else area)
            in collect_rects (items area') [])
      else Inr [])"

definition fill :: "target \<Rightarrow> color \<Rightarrow> pyval \<Rightarrow> outcome" where
  "fill target c area =
     (case prepare_color c target of Inl e \<Rightarrow> (Some e, []) | Inr color \<Rightarrow>
     (case get_target_surface target of Inl e \<Rightarrow> (Some e, []) | Inr rtarget \<Rightarrow>
     (case area_rects area of Inl e \<Rightarrow> (Some e, []) | Inr rects \<Rightarrow>
        if length rects > 2 then (None, [FillRects rects (length rects) color])
        else if length rects = 1 then (None, [FillRect (Some (rects ! 0)) color])
        else (None, [FillRect None color]))))"

subsection \<open>\<^verbatim>\<open>line\<close>\<close>

text \<open>\<^verbatim>\<open>clipline\<close> (sdl2/ext/algorithms.py) is not part of draw.py: \<^verbatim>\<open>line\<close> takes it
  as a parameter. It receives \<^verbatim>\<open>left, top, right, bottom, x1, y1, x2, y2\<close> and returns
  four values, each a number or \<^verbatim>\<open>None\<close>.\<close>

type_synonym clipfun =
  "int \<Rightarrow> int \<Rightarrow> int \<Rightarrow> int \<Rightarrow> int \<Rightarrow> int \<Rightarrow> int \<Rightarrow> int
     \<Rightarrow> rat option \<times> rat option \<times> rat option \<times> rat option"

text \<open>The index of \<^verbatim>\<open>pxbuf[int(y1 * frac + x1)]\<close>.\<close>

definition px_offset :: "rat \<Rightarrow> int \<Rightarrow> int \<Rightarrow> int" where
  "px_offset frac' x y = trunc (of_int y * frac' + of_int x)"

text \<open>The \<^verbatim>\<open>while True\<close> loop of lines 169 to 179. \<open>None\<close> stands for a loop that
  never reaches its \<^verbatim>\<open>break\<close>.\<close>

partial_function (option) bresenham ::
  "rat \<Rightarrow> 32 word \<Rightarrow> int \<Rightarrow> int \<Rightarrow> int \<Rightarrow> int \<Rightarrow> int \<Rightarrow> int \<Rightarrow> int \<Rightarrow> int \<Rightarrow> int
     \<Rightarrow> effect list \<Rightarrow> effect list option" where
  "bresenham frac' color x2 y2 dx dy sx sy x1 y1 err effs =
     (let effs' = effs @ [PixelWrite (px_offset frac' x1 y1) color] in
      if x1 = x2 \<and> y1 = y2 then Some effs'
      else
        (let e2 = err * 2;
             err1 = (if e2 > dy then err + dy else err);
             x1' = (if e2 > dy then x1 + sx else x1);
             err2 = (if e2 < dx then err1 + dx else err1);
             y1' = (if e2 < dx then y1 + sy else y1)
         in bresenham frac' color x2 y2 dx dy sx sy x1' y1' err2 effs'))"

declare bresenham.simps [code]

text \<open>Lines 161 to 179: the set-up of the loop for the clipped, truncated end points.\<close>

definition rasterize :: "rat \<Rightarrow> 32 word \<Rightarrow> int \<Rightarrow> int \<Rightarrow> int \<Rightarrow> int \<Rightarrow> effect list
     \<Rightarrow> effect list option" where
  "rasterize frac' color x1 y1 x2 y2 effs =
     (let dx = \<bar>x2 - x1\<bar>;
          dy = - \<bar>y2 - y1\<bar>;
          err = dx + dy;
          sx = (if x1 > x2 then - 1 else 1);
          sy = (if y1 > y2 then - 1 else 1)
      in bresenham frac' color x2 y2 dx dy sx sy x1 y1 err effs)"

text \<open>Lines 139 to 141 and 147 to 149: the rectangle of a vertical and of a horizontal
  segment.\<close>

definition vertical_area :: "int \<Rightarrow> int \<Rightarrow> int \<Rightarrow> int \<Rightarrow> sdl_rect" where
  "vertical_area width x1 y1 y2 =
     (if y1 < y2 then SDL_Rect (x1 - width div 2) y1 width (y2 - y1)
      else SDL_Rect (x1 - width div 2) y2 width (y1 - y2))"

definition horizontal_area :: "int \<Rightarrow> int \<Rightarrow> int \<Rightarrow> int \<Rightarrow> sdl_rect" where
  "horizontal_area width x1 y1 x2 =
     (if x1 < x2 then SDL_Rect x1 (y1 - width div 2) (x2 - x1) width
      else SDL_Rect x2 (y1 - width div 2) (x1 - x2) width)"

text \<open>The \<^verbatim>\<open>for idx in range(0, pcount, 4)\<close> loop of lines 134 to 179 over the points
  still to draw, with the effects performed so far. Line 157 converts the four clipped
  values with \<^verbatim>\<open>int\<close> before line 158 tests \<^verbatim>\<open>x1 is None\<close>; the test is then made on
  an integer, for which it is false, so the model has no branch for it. The last equation
  is the unpacking of fewer than four values, which the length check of \<^verbatim>\<open>line\<close>
  excludes.\<close>

fun draw_segments ::
  "clipfun \<Rightarrow> 32 word \<Rightarrow> int \<Rightarrow> rat \<Rightarrow> int \<Rightarrow> int \<Rightarrow> int \<Rightarrow> int \<Rightarrow> int list \<Rightarrow> effect list
     \<Rightarrow> outcome option" where
  "draw_segments clip color width frac' left top' right bottom [] effs = Some (None, effs)"
| "draw_segments clip color width frac' left top' right bottom (x1 # y1 # x2 # y2 # rest) effs =
     (if x1 = x2 then
        draw_segments clip color width frac' left top' right bottom rest
          (effs @ [FillRect (Some (vertical_area width x1 y1 y2)) color])
      else if y1 = y2 then
        draw_segments clip color width frac' left top' right bottom rest
          (effs @ [FillRect (Some (horizontal_area width x1 y1 x2)) color])
      else if width \<noteq> 1 then Some (Some UnsupportedError, effs)
      else
        (case clip left top' right bottom x1 y1 x2 y2 of (cx1, cy1, cx2, cy2) \<Rightarrow>
        (case py_int cx1 of Inl e \<Rightarrow> Some (Some e, effs) | Inr ix1 \<Rightarrow>
        (case py_int cy1 of Inl e \<Rightarrow> Some (Some e, effs) | Inr iy1 \<Rightarrow>
        (case py_int cx2 of Inl e \<Rightarrow> Some (Some e, effs) | Inr ix2 \<Rightarrow>
        (case py_int cy2 of Inl e \<Rightarrow> Some (Some e, effs) | Inr iy2 \<Rightarrow>
        (case rasterize frac' color ix1 iy1 ix2 iy2 effs of
           None \<Rightarrow> None
         | Some effs' \<Rightarrow>
             draw_segments clip color width frac' left top' right bottom rest effs')))))))"
| "draw_segments clip color width frac' left top' right bottom dline effs =
     Some (Some ValueError, effs)"

definition line :: "clipfun \<Rightarrow> target \<Rightarrow> color \<Rightarrow> int list \<Rightarrow> int \<Rightarrow> outcome option" where
  "line clip target c dline width =
     (if width < 1 then Some (Some ValueError, [])
      else
        (case prepare_color c target of Inl e \<Rightarrow> Some (Some e, []) | Inr color \<Rightarrow>
        (case get_target_surface target of Inl e \<Rightarrow> Some (Some e, []) | Inr rtarget \<Rightarrow>
           if int (length dline) mod 4 \<noteq> 0 then Some (Some ValueError, [])
           else
             (let bpp = BytesPerPixel (format rtarget) in
              if bpp = 0 then Some (Some ZeroDivisionError, [])
              else
                (let frac' = of_int (pitch rtarget) / of_int bpp;
                     clip_rect = clip_rect rtarget;
                     left = rect_x clip_rect;
                     right = rect_x clip_rect + rect_w clip_rect - 1;
                     top' = rect_y clip_rect;
                     bottom = rect_y clip_rect + rect_h clip_rect - 1
                 in if bpp = 3 then Some (Some UnsupportedError, [])
                    else draw_segments clip color width frac' left top' right bottom dline [])))))"

subsection \<open>The clipping helper\<close>

text \<open>Modelled from the spec: \<^verbatim>\<open>clipline\<close> (sdl2/ext/algorithms.py) clips the segment
  against the rectangle with the inclusive bounds left, top, right, bottom by the
  parametric method of Liang and Barsky, in exact arithmetic: it computes the portion of
  the segment inside the rectangle, and returns the sentinel of four \<^verbatim>\<open>None\<close> when the
  segment lies entirely outside.\<close>

fun clip_test :: "rat \<times> rat \<Rightarrow> rat \<times> rat \<Rightarrow> (rat \<times> rat) option" where
  "clip_test (p, q) (t0, t1) =
     (if p = 0 then (if q < 0 then None else Some (t0, t1))
      else if p < 0 then (if q / p > t1 then None else Some (max t0 (q / p), t1))
      else (if q / p < t0 then None else Some (t0, min t1 (q / p))))"

fun clip_tests :: "(rat \<times> rat) list \<Rightarrow> rat \<times> rat \<Rightarrow> (rat \<times> rat) option" where
  "clip_tests [] t = Some t"
| "clip_tests (c # cs) t = (case clip_test c t of None \<Rightarrow> None | Some t' \<Rightarrow> clip_tests cs t')"

definition clipline :: clipfun where
  "clipline left top' right bottom x1 y1 x2 y2 =
     (let dx = of_int (x2 - x1); dy = of_int (y2 - y1) in
      case clip_tests
             [(- dx, of_int (x1 - left)), (dx, of_int (right - x1)),
              (- dy, of_int (y1 - top')), (dy, of_int (bottom - y1))] (0, 1) of
        None \<Rightarrow> (None, None, None, None)
      | Some (t0, t1) \<Rightarrow>
          (Some (of_int x1 + t0 * dx), Some (of_int y1 + t0 * dy),
           Some (of_int x1 + t1 * dx), Some (of_int y1 + t1 * dy)))"

subsection \<open>The pixel memory\<close>

text \<open>The pixel buffer as the elements \<^verbatim>\<open>pxbuf[i]\<close> of the width the surface's
  bytes-per-pixel gives; a store keeps the low bits of the color that fit the element.
  The pixel (x, y) is the element \<open>px_offset frac' x y\<close> that \<^verbatim>\<open>line\<close> addresses.\<close>

type_synonym pixmem = "int \<Rightarrow> 32 word"

definition surface_frac :: "sdl_surface \<Rightarrow> rat" where
  "surface_frac s = of_int (pitch s) / of_int (BytesPerPixel (format s))"

definition store_px :: "sdl_surface \<Rightarrow> int \<Rightarrow> 32 word \<Rightarrow> pixmem \<Rightarrow> pixmem" where
  "store_px s i c mem = mem(i := take_bit (nat (8 * BytesPerPixel (format s))) c)"

text \<open>Modelled from the spec: \<^verbatim>\<open>SDL_FillRect\<close> and \<^verbatim>\<open>SDL_FillRects\<close> (SDL, bound in
  sdl2/surface.py) write the color into every pixel of the target rectangle intersected
  with the clip rectangle; no rectangle means the entire clip region.\<close>

definition clipped_pixels :: "sdl_rect \<Rightarrow> sdl_rect \<Rightarrow> (int \<times> int) list" where
  "clipped_pixels r clip =
     concat (map (\<lambda>y. map (\<lambda>x. (x, y))
        [max (rect_x r) (rect_x clip) .. min (rect_x r + rect_w r) (rect_x clip + rect_w clip) - 1])
        [max (rect_y r) (rect_y clip) .. min (rect_y r + rect_h r) (rect_y clip + rect_h clip) - 1])"

definition SDL_FillRect :: "sdl_surface \<Rightarrow> sdl_rect option \<Rightarrow> 32 word \<Rightarrow> pixmem \<Rightarrow> pixmem" where
  "SDL_FillRect s rect c mem =
     foldl (\<lambda>m (x, y). store_px s (px_offset (surface_frac s) x y) c m) mem
       (clipped_pixels (case rect of None \<Rightarrow> clip_rect s | Some r \<Rightarrow> r) (clip_rect s))"

definition SDL_FillRects :: "sdl_surface \<Rightarrow> sdl_rect list \<Rightarrow> nat \<Rightarrow> 32 word \<Rightarrow> pixmem \<Rightarrow> pixmem" where
  "SDL_FillRects s rects count c mem =
     foldl (\<lambda>m r. SDL_FillRect s (Some r) c m) mem (take count rects)"

fun apply_effect :: "sdl_surface \<Rightarrow> pixmem \<Rightarrow> effect \<Rightarrow> pixmem" where
  "apply_effect s mem (FillRect rect c) = SDL_FillRect s rect c mem"
| "apply_effect s mem (FillRects rects count c) = SDL_FillRects s rects count c mem"
| "apply_effect s mem (PixelWrite i c) = store_px s i c mem"

definition run_effects :: "sdl_surface \<Rightarrow> effect list \<Rightarrow> pixmem \<Rightarrow> pixmem" where
  "run_effects s effs mem = foldl (apply_effect s) mem effs"

subsection \<open>A surface to draw on\<close>

text \<open>A 10 by 10 surface of 32-bit ARGB pixels without padding, whose clip rectangle is
  the whole surface, and an opaque red.\<close>

definition argb8888 :: sdl_pixelformat where
  "argb8888 =
     \<lparr>BytesPerPixel = 4, Rmask = 0x00FF0000, Gmask = 0x0000FF00, Bmask = 0x000000FF,
      Amask = 0xFF000000, Rloss = 0, Gloss = 0, Bloss = 0, Aloss = 0,
      Rshift = 16, Gshift = 8, Bshift = 0, Ashift = 24\<rparr>"

definition surface10 :: sdl_surface where
  "surface10 =
     \<lparr>format = argb8888, surf_w = 10, surf_h = 10, pitch = 40, clip_rect = SDL_Rect 0 0 10 10\<rparr>"

definition red :: color where
  "red = \<lparr>col_r = 255, col_g = 0, col_b = 0, col_a = 255\<rparr>"

subsection \<open>Notions used in the statements\<close>

text \<open>The store \<^verbatim>\<open>line\<close> makes for the pixel \<open>p = (x, y)\<close>.\<close>

definition px :: "rat \<Rightarrow> 32 word \<Rightarrow> int \<times> int \<Rightarrow> effect" where
  "px frac' color p = PixelWrite (px_offset frac' (fst p) (snd p)) color"


text \<open>The consecutive 4-tuples \<^verbatim>\<open>dline[idx:idx + 4]\<close> of a point list.\<close>

fun chunks4 :: "int list \<Rightarrow> (int \<times> int \<times> int \<times> int) list" where
  "chunks4 (x1 # y1 # x2 # y2 # rest) = (x1, y1, x2, y2) # chunks4 rest"
| "chunks4 dline = []"

text \<open>A segment is axis-aligned when it is vertical or horizontal; \<open>axis_fill\<close> is the
  call of \<^verbatim>\<open>SDL_FillRect\<close> that \<^verbatim>\<open>line\<close> makes for one.\<close>

fun axis_aligned :: "int \<times> int \<times> int \<times> int \<Rightarrow> bool" where
  "axis_aligned (x1, y1, x2, y2) = (x1 = x2 \<or> y1 = y2)"

fun axis_fill :: "int \<Rightarrow> 32 word \<Rightarrow> int \<times> int \<times> int \<times> int \<Rightarrow> effect" where
  "axis_fill width color (x1, y1, x2, y2) =
     FillRect (Some (if x1 = x2 then vertical_area width x1 y1 y2
                     else horizontal_area width x1 y1 x2)) color"






section \<open>Properties\<close>

subsection \<open>The example surface\<close>

lemma surface10_color:
  "prepare_color red (Surface surface10) = Inr (SDL_MapRGBA argb8888 255 0 0 255)"
  by (simp add: prepare_color_def convert_to_color_def surface10_def argb8888_def red_def)

lemma surface10_fields:
  "BytesPerPixel (format surface10) = 4" "pitch surface10 = 40"
  "clip_rect surface10 = SDL_Rect 0 0 10 10" "surface_frac surface10 = 10"
  by (simp_all add: surface10_def argb8888_def surface_frac_def)

subsection \<open>\<^verbatim>\<open>prepare_color\<close> and \<^verbatim>\<open>fill\<close>\<close>



lemma area_rects_rect: "area_rects (PRect r) = Inr [r]"
  by (simp add: area_rects_def)





lemma fill_rects:
  assumes "prepare_color c target = Inr color"
    and "get_target_surface target = Inr rtarget"
    and "area_rects area = Inr rects"
  shows "fill target c area =
           (None, [if 2 < length rects then FillRects rects (length rects) color
                   else if length rects = 1 then FillRect (Some (hd rects)) color
                   else FillRect None color])"
  using assms by (cases rects) (simp_all add: fill_def)










subsection \<open>Arithmetic of the pixel index\<close>





subsection \<open>The clipping helper stays within its bounds\<close>





subsection \<open>The Bresenham loop terminates on the end point\<close>

text \<open>With \<open>rx\<close> and \<open>ry\<close> the distances still to go in x and y, the loop keeps
  \<open>err = dx + dy - rx * dy - ry * dx\<close>; so it takes no step in a direction whose distance
  is used up, takes some step while the end point is not reached, and \<open>rx + ry\<close>
  decreases.\<close>

lemma step_sq: "(s::int) = 1 \<or> s = - 1 \<Longrightarrow> (a - (b + s)) * s = (a - b) * s - 1"
  by (auto simp: algebra_simps)

lemma unit_zero: "(s::int) = 1 \<or> s = - 1 \<Longrightarrow> (a - b) * s = 0 \<longleftrightarrow> b = a"
  by auto

lemma no_x_step:
  fixes dx D ry :: int
  assumes "0 \<le> dx" "0 \<le> D" "1 \<le> ry"
  shows "\<not> (dx - D - ry * dx) * 2 > - D"
proof -
  have "1 * dx \<le> ry * dx" using assms by (intro mult_right_mono) auto
  moreover have "dx \<le> a \<Longrightarrow> \<not> (dx - D - a) * 2 > - D" for a
    using assms(2) by simp
  ultimately show ?thesis by simp
qed

lemma no_y_step:
  fixes dx D rx :: int
  assumes "0 \<le> dx" "0 \<le> D" "1 \<le> rx"
  shows "\<not> (dx - D + rx * D) * 2 < dx"
proof -
  have "1 * D \<le> rx * D" using assms by (intro mult_right_mono) auto
  moreover have "D \<le> a \<Longrightarrow> \<not> (dx - D + a) * 2 < dx" for a
    using assms(1) by simp
  ultimately show ?thesis by simp
qed

lemma bresenham_steps:
  fixes dx dy :: int
  assumes sx: "sx = 1 \<or> sx = - 1" and sy: "sy = 1 \<or> sy = - 1"
  shows "nat ((x2 - x1) * sx + (y2 - y1) * sy) = n \<Longrightarrow>
     0 \<le> (x2 - x1) * sx \<Longrightarrow> (x2 - x1) * sx \<le> dx \<Longrightarrow>
     0 \<le> (y2 - y1) * sy \<Longrightarrow> (y2 - y1) * sy \<le> - dy \<Longrightarrow>
     err = dx + dy - (x2 - x1) * sx * dy - (y2 - y1) * sy * dx \<Longrightarrow>
     \<exists>pts. bresenham frac' color x2 y2 dx dy sx sy x1 y1 err effs
              = Some (effs @ map (px frac' color) pts)
         \<and> pts \<noteq> [] \<and> hd pts = (x1, y1) \<and> last pts = (x2, y2)
         \<and> (\<forall>p\<in>set pts. 0 \<le> (x2 - fst p) * sx \<and> (x2 - fst p) * sx \<le> (x2 - x1) * sx
                \<and> 0 \<le> (y2 - snd p) * sy \<and> (y2 - snd p) * sy \<le> (y2 - y1) * sy)"
proof (induction n arbitrary: x1 y1 err effs rule: less_induct)
  case (less n)
  define rx where "rx = (x2 - x1) * sx"
  define ry where "ry = (y2 - y1) * sy"
  define D where "D = - dy"
  have rx: "0 \<le> rx" "rx \<le> dx" and ry: "0 \<le> ry" "ry \<le> D"
    using less.prems by (simp_all add: rx_def ry_def D_def)
  have err: "err = dx - D + rx * D - ry * dx"
    using less.prems(6) by (simp add: rx_def ry_def D_def algebra_simps)
  have n: "n = nat (rx + ry)" using less.prems(1) by (simp add: rx_def ry_def)
  show ?case
  proof (cases "x1 = x2 \<and> y1 = y2")
    case True
    then have "bresenham frac' color x2 y2 dx dy sx sy x1 y1 err effs
        = Some (effs @ map (px frac' color) [(x1, y1)])"
      by (subst bresenham.simps) (simp add: px_def)
    then show ?thesis using True by (intro exI[of _ "[(x1, y1)]"]) simp
  next
    case False
    define xs where "xs \<longleftrightarrow> err * 2 > dy"
    define ys where "ys \<longleftrightarrow> err * 2 < dx"
    define x1' where "x1' = (if xs then x1 + sx else x1)"
    define y1' where "y1' = (if ys then y1 + sy else y1)"
    define err' where "err' = (if ys then (if xs then err + dy else err) + dx else (if xs then err + dy else err))"
    have rx0: "rx = 0 \<longleftrightarrow> x1 = x2" using unit_zero[OF sx, of x2 x1] by (simp add: rx_def)
    have ry0: "ry = 0 \<longleftrightarrow> y1 = y2" using unit_zero[OF sy, of y2 y1] by (simp add: ry_def)
    have nox: "\<not> xs" if "rx = 0"
    proof -
      have "1 \<le> ry" using that False rx0 ry0 ry by linarith
      then show ?thesis
        using no_x_step[of dx D ry] rx ry that by (simp add: xs_def err D_def)
    qed
    have noy: "\<not> ys" if "ry = 0"
    proof -
      have "1 \<le> rx" using that False rx0 ry0 rx by linarith
      then show ?thesis
        using no_y_step[of dx D rx] rx ry that by (simp add: ys_def err)
    qed
    have progress: "xs \<or> ys"
    proof (rule ccontr)
      assume "\<not> (xs \<or> ys)"
      then have "err * 2 \<le> - D" "dx \<le> err * 2" by (simp_all add: xs_def ys_def D_def)
      then have "dx = 0" "D = 0" using rx ry by linarith+
      then have "rx = 0" "ry = 0" using rx ry by linarith+
      then show False using False rx0 ry0 by simp
    qed
    have rx': "(x2 - x1') * sx = (if xs then rx - 1 else rx)"
      using step_sq[OF sx, of x2 x1] by (simp add: x1'_def rx_def)
    have ry': "(y2 - y1') * sy = (if ys then ry - 1 else ry)"
      using step_sq[OF sy, of y2 y1] by (simp add: y1'_def ry_def)
    have rx_pos: "1 \<le> rx" if xs using nox that rx by (cases "rx = 0") auto
    have ry_pos: "1 \<le> ry" if ys using noy that ry by (cases "ry = 0") auto
    have m: "nat ((x2 - x1') * sx + (y2 - y1') * sy) < n"
      using progress rx ry rx_pos ry_pos by (auto simp: rx' ry' n)
    have i1: "0 \<le> (x2 - x1') * sx" "(x2 - x1') * sx \<le> dx"
      using rx rx_pos by (auto simp: rx')
    have i2: "0 \<le> (y2 - y1') * sy" "(y2 - y1') * sy \<le> - dy"
      using ry ry_pos by (auto simp: ry' D_def)
    have i3: "err' = dx + dy - (x2 - x1') * sx * dy - (y2 - y1') * sy * dx"
      unfolding rx' ry' by (simp add: err'_def err D_def algebra_simps)
    from less.IH[OF m refl i1 i2 i3, of "effs @ [px frac' color (x1, y1)]"]
    obtain pts where pts:
      "bresenham frac' color x2 y2 dx dy sx sy x1' y1' err' (effs @ [px frac' color (x1, y1)])
         = Some ((effs @ [px frac' color (x1, y1)]) @ map (px frac' color) pts)"
      "pts \<noteq> []" "hd pts = (x1', y1')" "last pts = (x2, y2)"
      "\<forall>p\<in>set pts. 0 \<le> (x2 - fst p) * sx \<and> (x2 - fst p) * sx \<le> (x2 - x1') * sx
                \<and> 0 \<le> (y2 - snd p) * sy \<and> (y2 - snd p) * sy \<le> (y2 - y1') * sy"
      by blast
    have "bresenham frac' color x2 y2 dx dy sx sy x1 y1 err effs
        = (if x1 = x2 \<and> y1 = y2 then Some (effs @ [px frac' color (x1, y1)])
           else bresenham frac' color x2 y2 dx dy sx sy x1' y1' err'
                  (effs @ [px frac' color (x1, y1)]))"
      by (subst bresenham.simps)
         (simp add: px_def Let_def xs_def ys_def x1'_def y1'_def err'_def)
    then have "bresenham frac' color x2 y2 dx dy sx sy x1 y1 err effs
        = bresenham frac' color x2 y2 dx dy sx sy x1' y1' err' (effs @ [px frac' color (x1, y1)])"
      using False by (simp only: if_False)
    then have run: "bresenham frac' color x2 y2 dx dy sx sy x1 y1 err effs
        = Some (effs @ map (px frac' color) ((x1, y1) # pts))"
      using pts(1) by simp
    have le1: "(x2 - x1') * sx \<le> rx" "(y2 - y1') * sy \<le> ry"
      by (auto simp: rx' ry')
    have box: "\<forall>p\<in>set ((x1, y1) # pts). 0 \<le> (x2 - fst p) * sx \<and> (x2 - fst p) * sx \<le> (x2 - x1) * sx
                \<and> 0 \<le> (y2 - snd p) * sy \<and> (y2 - snd p) * sy \<le> (y2 - y1) * sy"
      using pts(5) le1 rx ry unfolding rx_def ry_def by fastforce
    show ?thesis
      using run pts(2,4) box by (intro exI[of _ "(x1, y1) # pts"]) simp
  qed
qed

text \<open>The set-up of lines 161 to 168 establishes the invariant, so the rasterization of any
  two end points returns: it stores the first point first and the second point last, and
  every point it stores lies between the two.\<close>

lemma rasterize_total:
  "\<exists>pts. rasterize frac' color x1 y1 x2 y2 effs = Some (effs @ map (px frac' color) pts)
      \<and> pts \<noteq> [] \<and> hd pts = (x1, y1) \<and> last pts = (x2, y2)
      \<and> (\<forall>p\<in>set pts. min x1 x2 \<le> fst p \<and> fst p \<le> max x1 x2
             \<and> min y1 y2 \<le> snd p \<and> snd p \<le> max y1 y2)"
proof -
  define sx :: int where "sx = (if x1 > x2 then - 1 else 1)"
  define sy :: int where "sy = (if y1 > y2 then - 1 else 1)"
  have sx: "sx = 1 \<or> sx = - 1" and sy: "sy = 1 \<or> sy = - 1"
    by (simp_all add: sx_def sy_def)
  have rx: "(x2 - x1) * sx = \<bar>x2 - x1\<bar>" and ry: "(y2 - y1) * sy = \<bar>y2 - y1\<bar>"
    by (simp_all add: sx_def sy_def)
  have e: "\<bar>x2 - x1\<bar> + - \<bar>y2 - y1\<bar>
      = \<bar>x2 - x1\<bar> + - \<bar>y2 - y1\<bar> - (x2 - x1) * sx * - \<bar>y2 - y1\<bar> - (y2 - y1) * sy * \<bar>x2 - x1\<bar>"
    unfolding rx ry by (simp add: algebra_simps)
  from bresenham_steps [OF sx sy refl, of x2 x1 "\<bar>x2 - x1\<bar>" y2 y1 "- \<bar>y2 - y1\<bar>"
      "\<bar>x2 - x1\<bar> + - \<bar>y2 - y1\<bar>" frac' color effs]
  obtain pts where pts:
    "bresenham frac' color x2 y2 \<bar>x2 - x1\<bar> (- \<bar>y2 - y1\<bar>) sx sy x1 y1
       (\<bar>x2 - x1\<bar> + - \<bar>y2 - y1\<bar>) effs = Some (effs @ map (px frac' color) pts)"
    "pts \<noteq> []" "hd pts = (x1, y1)" "last pts = (x2, y2)"
    "\<forall>p\<in>set pts. 0 \<le> (x2 - fst p) * sx \<and> (x2 - fst p) * sx \<le> (x2 - x1) * sx
         \<and> 0 \<le> (y2 - snd p) * sy \<and> (y2 - snd p) * sy \<le> (y2 - y1) * sy"
    using e by (auto simp: rx ry)
  have run: "rasterize frac' color x1 y1 x2 y2 effs = Some (effs @ map (px frac' color) pts)"
    using pts(1) by (simp add: rasterize_def Let_def sx_def sy_def)
  have box: "min x1 x2 \<le> fst p \<and> fst p \<le> max x1 x2
             \<and> min y1 y2 \<le> snd p \<and> snd p \<le> max y1 y2" if "p \<in> set pts" for p
    using pts(5) that by (auto simp: sx_def sy_def split: if_splits)
  show ?thesis using run pts(2,3,4) box by blast
qed

subsection \<open>The loop over the segments\<close>

lemma py_int_error: "py_int v = Inl e \<Longrightarrow> e = TypeError"
  by (cases v) simp_all


lemma len4: "int (length (x1 # y1 # x2 # y2 # rest)) mod 4 = 0 \<longleftrightarrow> int (length rest) mod 4 = 0"
  by (simp add: mod_simps)

lemma draw_segments_thick:
  "width \<noteq> 1 \<Longrightarrow> int (length dline) mod 4 = 0 \<Longrightarrow>
   draw_segments clip color width frac' left top' right bottom dline effs =
     Some (if list_all axis_aligned (chunks4 dline) then None else Some UnsupportedError,
           effs @ map (axis_fill width color) (takeWhile axis_aligned (chunks4 dline)))"
proof (induction clip color width frac' left top' right bottom dline effs
    rule: draw_segments.induct)
  case (1 clip color width frac' left top' right bottom effs)
  then show ?case by simp
next
  case (2 clip color width frac' left top' right bottom x1 y1 x2 y2 rest effs)
  have rest: "int (length rest) mod 4 = 0" using "2.prems"(2) by (rule len4 [THEN iffD1])
  show ?case
  proof (cases "x1 = x2")
    case True
    then show ?thesis using "2.IH"(1) [OF True "2.prems"(1) rest] by simp
  next
    case False
    show ?thesis
    proof (cases "y1 = y2")
      case True
      then show ?thesis using False "2.IH"(2) [OF False True "2.prems"(1) rest] by simp
    next
      case ne: False
      then show ?thesis using False "2.prems"(1) by simp
    qed
  qed
qed simp_all

lemma diagonal_sentinel:
  assumes "x1 \<noteq> x2" "y1 \<noteq> y2"
    and "clip left top' right bottom x1 y1 x2 y2 = (cx1, cy1, cx2, cy2)"
    and "cx1 = None \<or> cy1 = None \<or> cx2 = None \<or> cy2 = None"
  shows "draw_segments clip color 1 frac' left top' right bottom (x1 # y1 # x2 # y2 # rest) effs
           = Some (Some TypeError, effs)"
proof -
  have eq: "draw_segments clip color 1 frac' left top' right bottom (x1 # y1 # x2 # y2 # rest) effs
      = (case py_int cx1 of Inl e \<Rightarrow> Some (Some e, effs) | Inr ix1 \<Rightarrow>
        (case py_int cy1 of Inl e \<Rightarrow> Some (Some e, effs) | Inr iy1 \<Rightarrow>
        (case py_int cx2 of Inl e \<Rightarrow> Some (Some e, effs) | Inr ix2 \<Rightarrow>
        (case py_int cy2 of Inl e \<Rightarrow> Some (Some e, effs) | Inr iy2 \<Rightarrow>
        (case rasterize frac' color ix1 iy1 ix2 iy2 effs of
           None \<Rightarrow> None
         | Some effs' \<Rightarrow>
             draw_segments clip color 1 frac' left top' right bottom rest effs')))))"
    using assms(1,2,3) by simp
  show ?thesis
    unfolding eq using assms(4) by (cases cx1; cases cy1; cases cx2; cases cy2) simp_all
qed

lemma diagonal_drawn:
  assumes "x1 \<noteq> x2" "y1 \<noteq> y2"
    and "clip left top' right bottom x1 y1 x2 y2 = (Some a, Some b, Some c, Some d)"
  shows "draw_segments clip color 1 frac' left top' right bottom (x1 # y1 # x2 # y2 # rest) effs
           = (case rasterize frac' color (trunc a) (trunc b) (trunc c) (trunc d) effs of
                None \<Rightarrow> None
              | Some effs' \<Rightarrow>
                  draw_segments clip color 1 frac' left top' right bottom rest effs')"
  using assms by simp





lemma line_segments:
  assumes "1 \<le> width" "prepare_color c target = Inr color"
    and "get_target_surface target = Inr s" "int (length dline) mod 4 = 0"
    and "BytesPerPixel (format s) \<noteq> 0" "BytesPerPixel (format s) \<noteq> 3"
  shows "line clip target c dline width =
     draw_segments clip color width (surface_frac s)
       (rect_x (clip_rect s)) (rect_y (clip_rect s))
       (rect_x (clip_rect s) + rect_w (clip_rect s) - 1)
       (rect_y (clip_rect s) + rect_h (clip_rect s) - 1) dline []"
  using assms by (simp add: line_def Let_def surface_frac_def)

subsection \<open>\<^verbatim>\<open>line\<close>: validation, axis-aligned segments, thick lines\<close>

text \<open>C6. The checks that concern the whole call come before the loop over the segments:
  a width below 1 raises \<^verbatim>\<open>ValueError\<close>; on a surface or sprite a point list whose length
  is not a multiple of 4 raises \<^verbatim>\<open>ValueError\<close>; and when width and length pass, 3 bytes
  per pixel raise \<^verbatim>\<open>UnsupportedError\<close>. In each of the three cases, whatever the target,
  the call raises with no effect on the surface performed.\<close>

theorem line_validation_atomic:
  "(width < 1 \<longrightarrow> line clip target c dline width = Some (Some ValueError, []))
   \<and> (prepare_color c target = Inr color \<and> get_target_surface target = Inr s
        \<and> int (length dline) mod 4 \<noteq> 0 \<longrightarrow>
          line clip target c dline width = Some (Some ValueError, []))
   \<and> (1 \<le> width \<and> prepare_color c target = Inr color \<and> get_target_surface target = Inr s
        \<and> int (length dline) mod 4 = 0 \<and> BytesPerPixel (format s) = 3 \<longrightarrow>
          line clip target c dline width = Some (Some UnsupportedError, []))
   \<and> (width < 1 \<or> int (length dline) mod 4 \<noteq> 0
        \<or> (\<exists>s'. get_target_surface target = Inr s' \<and> BytesPerPixel (format s') = 3) \<longrightarrow>
          (\<exists>e. line clip target c dline width = Some (Some e, [])))"
  by (auto simp: line_def Let_def split: sum.splits)

theorem line_validation_atomic_witness:
  "line clipline (Surface surface10) red [0, 0, 5, 5] 0 = Some (Some ValueError, [])
   \<and> line clipline (Surface surface10) red [1, 2, 3] 1 = Some (Some ValueError, [])
   \<and> line clipline (Surface (surface10\<lparr>format := argb8888\<lparr>BytesPerPixel := 3\<rparr>\<rparr>)) red
        [0, 0, 5, 5] 1 = Some (Some UnsupportedError, [])"
proof -
  have a: "prepare_color red (Surface (surface10\<lparr>format := argb8888\<lparr>BytesPerPixel := 3\<rparr>\<rparr>))
             = Inr (SDL_MapRGBA (argb8888\<lparr>BytesPerPixel := 3\<rparr>) 255 0 0 255)"
    by (simp add: prepare_color_def convert_to_color_def surface10_def argb8888_def red_def)
  show ?thesis
    using line_validation_atomic [where width = 0 and clip = clipline
        and target = "Surface surface10" and c = red and dline = "[0, 0, 5, 5]"]
      line_validation_atomic [where width = 1 and clip = clipline
        and target = "Surface surface10" and c = red and dline = "[1, 2, 3]"
        and s = surface10 and color = "SDL_MapRGBA argb8888 255 0 0 255"]
      line_validation_atomic [where width = 1 and clip = clipline
        and target = "Surface (surface10\<lparr>format := argb8888\<lparr>BytesPerPixel := 3\<rparr>\<rparr>)"
        and c = red and dline = "[0, 0, 5, 5]"
        and s = "surface10\<lparr>format := argb8888\<lparr>BytesPerPixel := 3\<rparr>\<rparr>"
        and color = "SDL_MapRGBA (argb8888\<lparr>BytesPerPixel := 3\<rparr>) 255 0 0 255"]
      surface10_color a
    by simp
qed




text \<open>C7. For every width other than 1, the loop over a point list of valid length
  draws the segments in order, each axis-aligned one by its \<^verbatim>\<open>SDL_FillRect\<close> call, and
  raises \<^verbatim>\<open>UnsupportedError\<close> exactly when it reaches a segment that is neither vertical
  nor horizontal; the fills made for the segments before that one stay among the effects,
  and without such a segment the loop ends normally. This is the outcome of the call
  whenever the call reaches the loop: the width is at least 1, color and surface are
  resolved, and the pixel size is supported.\<close>

theorem line_thick_diagonal:
  assumes "width \<noteq> 1" and "int (length dline) mod 4 = 0"
  shows "draw_segments clip color width frac' left top' right bottom dline effs =
           Some (if list_all axis_aligned (chunks4 dline) then None else Some UnsupportedError,
                 effs @ map (axis_fill width color) (takeWhile axis_aligned (chunks4 dline)))
       \<and> (1 \<le> width \<and> prepare_color c target = Inr color \<and> get_target_surface target = Inr s
            \<and> BytesPerPixel (format s) \<noteq> 0 \<and> BytesPerPixel (format s) \<noteq> 3 \<longrightarrow>
           line clip target c dline width =
             Some (if list_all axis_aligned (chunks4 dline) then None else Some UnsupportedError,
                   map (axis_fill width color) (takeWhile axis_aligned (chunks4 dline))))"
proof (intro conjI impI)
  show "draw_segments clip color width frac' left top' right bottom dline effs =
           Some (if list_all axis_aligned (chunks4 dline) then None else Some UnsupportedError,
                 effs @ map (axis_fill width color) (takeWhile axis_aligned (chunks4 dline)))"
    using assms by (rule draw_segments_thick)
next
  assume a: "1 \<le> width \<and> prepare_color c target = Inr color \<and> get_target_surface target = Inr s
            \<and> BytesPerPixel (format s) \<noteq> 0 \<and> BytesPerPixel (format s) \<noteq> 3"
  then have "line clip target c dline width =
     draw_segments clip color width (surface_frac s)
       (rect_x (clip_rect s)) (rect_y (clip_rect s))
       (rect_x (clip_rect s) + rect_w (clip_rect s) - 1)
       (rect_y (clip_rect s) + rect_h (clip_rect s) - 1) dline []"
    using assms(2) by (intro line_segments) simp_all
  then show "line clip target c dline width =
             Some (if list_all axis_aligned (chunks4 dline) then None else Some UnsupportedError,
                   map (axis_fill width color) (takeWhile axis_aligned (chunks4 dline)))"
    using draw_segments_thick [OF assms, of clip color "surface_frac s" _ _ _ _ "[]"] by simp
qed

theorem line_thick_diagonal_witness:
  "line clipline (Surface surface10) red [1, 1, 4, 1, 2, 8, 2, 0, 3, 3, 4, 5, 1, 1, 1, 1] 2
     = Some (Some UnsupportedError,
             [FillRect (Some (SDL_Rect 1 0 3 2)) (SDL_MapRGBA argb8888 255 0 0 255),
              FillRect (Some (SDL_Rect 1 0 2 8)) (SDL_MapRGBA argb8888 255 0 0 255)])
   \<and> line clipline (Surface surface10) red [1, 1, 4, 1, 2, 8, 2, 0] 2
     = Some (None,
             [FillRect (Some (SDL_Rect 1 0 3 2)) (SDL_MapRGBA argb8888 255 0 0 255),
              FillRect (Some (SDL_Rect 1 0 2 8)) (SDL_MapRGBA argb8888 255 0 0 255)])"
  using line_thick_diagonal [where width = 2 and c = red and target = "Surface surface10"
      and s = surface10 and clip = clipline and color = "SDL_MapRGBA argb8888 255 0 0 255"
      and dline = "[1, 1, 4, 1, 2, 8, 2, 0, 3, 3, 4, 5, 1, 1, 1, 1]"]
    line_thick_diagonal [where width = 2 and c = red and target = "Surface surface10"
      and s = surface10 and clip = clipline and color = "SDL_MapRGBA argb8888 255 0 0 255"
      and dline = "[1, 1, 4, 1, 2, 8, 2, 0]"]
    surface10_color
  by (simp add: surface10_fields vertical_area_def horizontal_area_def)

lemma clipped_pixels_empty:
  "rect_w r \<le> 0 \<or> rect_h r \<le> 0 \<Longrightarrow> clipped_pixels r clip = []"
  by (auto simp: clipped_pixels_def)

lemma fill_rect_object:
  assumes "prepare_color c target = Inr color" "get_target_surface target = Inr s"
  shows "fill target c (PRect r) = (None, [FillRect (Some r) color])"
  using fill_rects [OF assms area_rects_rect [of r]] by simp

text \<open>C4. A vertical segment drawn with width \<open>w \<ge> 1\<close> is the single call
  \<^verbatim>\<open>SDL_FillRect\<close> for the rectangle \<open>(x1 - w div 2, min y1 y2, w, |y2 - y1|)\<close>, which is
  what \<^verbatim>\<open>fill\<close> does for that rectangle. A horizontal segment changes the pixel memory
  exactly as \<^verbatim>\<open>fill\<close> does for \<open>(min x1 x2, y1 - w div 2, |x2 - x1|, w)\<close>, and is the same
  call when its end points differ.\<close>

theorem line_axis_aligned_is_fill:
  assumes "1 \<le> width"
    and "prepare_color c target = Inr color" "get_target_surface target = Inr s"
    and "BytesPerPixel (format s) \<noteq> 0" "BytesPerPixel (format s) \<noteq> 3"
  shows "line clip target c [x1, y1, x1, y2] width
           = Some (None, [FillRect (Some (SDL_Rect (x1 - width div 2) (min y1 y2) width \<bar>y2 - y1\<bar>))
                            color])
       \<and> line clip target c [x1, y1, x1, y2] width
           = Some (fill target c (PRect (SDL_Rect (x1 - width div 2) (min y1 y2) width \<bar>y2 - y1\<bar>)))
       \<and> (x1 \<noteq> x2 \<longrightarrow>
            line clip target c [x1, y1, x2, y1] width
              = Some (fill target c
                       (PRect (SDL_Rect (min x1 x2) (y1 - width div 2) \<bar>x2 - x1\<bar> width))))
       \<and> (\<exists>effs. line clip target c [x1, y1, x2, y1] width = Some (None, effs)
            \<and> run_effects s effs mem
                = run_effects s
                    (snd (fill target c
                       (PRect (SDL_Rect (min x1 x2) (y1 - width div 2) \<bar>x2 - x1\<bar> width)))) mem)"
proof -
  have h: "horizontal_area width x1 y1 x2
             = SDL_Rect (min x1 x2) (y1 - width div 2) \<bar>x2 - x1\<bar> width"
    by (simp add: horizontal_area_def)
  have l: "line clip target c [a, b, a', b'] width =
     draw_segments clip color width (surface_frac s)
       (rect_x (clip_rect s)) (rect_y (clip_rect s))
       (rect_x (clip_rect s) + rect_w (clip_rect s) - 1)
       (rect_y (clip_rect s) + rect_h (clip_rect s) - 1) [a, b, a', b'] []" for a b a' b'
    using line_segments [OF assms(1,2,3) _ assms(4,5), of "[a, b, a', b']" clip] by simp
  have vert: "line clip target c [x1, y1, x1, y'] width
           = Some (None, [FillRect (Some (SDL_Rect (x1 - width div 2) (min y1 y') width \<bar>y' - y1\<bar>))
                            color])" for y'
    by (simp add: l vertical_area_def)
  have hor: "line clip target c [x1, y1, x2, y1] width
           = Some (None, [FillRect (Some (SDL_Rect (min x1 x2) (y1 - width div 2) \<bar>x2 - x1\<bar> width))
                            color])" if "x1 \<noteq> x2"
    using that by (simp add: l h)
  have point: "run_effects s [FillRect (Some (SDL_Rect (x1 - width div 2) y1 width 0)) color] mem
      = run_effects s [FillRect (Some (SDL_Rect x1 (y1 - width div 2) 0 width)) color] mem"
    by (simp add: run_effects_def SDL_FillRect_def clipped_pixels_empty)
  have last: "\<exists>effs. line clip target c [x1, y1, x2, y1] width = Some (None, effs)
            \<and> run_effects s effs mem
                = run_effects s
                    (snd (fill target c
                       (PRect (SDL_Rect (min x1 x2) (y1 - width div 2) \<bar>x2 - x1\<bar> width)))) mem"
  proof (cases "x1 = x2")
    case True
    then show ?thesis
      using vert [of y1] point by (simp add: fill_rect_object [OF assms(2,3)])
  next
    case False
    then show ?thesis using hor by (simp add: fill_rect_object [OF assms(2,3)])
  qed
  show ?thesis
    using vert hor last by (simp add: fill_rect_object [OF assms(2,3)])
qed

theorem line_axis_aligned_is_fill_witness:
  "line clipline (Surface surface10) red [5, 2, 5, 10] 3
     = Some (None, [FillRect (Some (SDL_Rect 4 2 3 8)) (SDL_MapRGBA argb8888 255 0 0 255)])
   \<and> line clipline (Surface surface10) red [5, 2, 5, 10] 3
     = Some (fill (Surface surface10) red (PRect (SDL_Rect 4 2 3 8)))"
proof -
  have w: "(1::int) \<le> 3" by simp
  have t: "get_target_surface (Surface surface10) = Inr surface10" by simp
  have b: "BytesPerPixel (format surface10) \<noteq> 0" "BytesPerPixel (format surface10) \<noteq> 3"
    by (simp_all add: surface10_fields)
  have n: "5 - 3 div 2 = (4::int)" "min 2 10 = (2::int)" "\<bar>10 - 2\<bar> = (8::int)"
    by simp_all
  from line_axis_aligned_is_fill [where clip = clipline and ?x1.0 = 5 and ?y1.0 = 2
      and ?y2.0 = 10 and ?x2.0 = 5 and mem = "\<lambda>i. 0", OF w surface10_color t b, unfolded n]
  show ?thesis by blast
qed

subsection \<open>\<^verbatim>\<open>line\<close>: diagonal segments\<close>

lemma clipline_outside: "clipline 0 0 9 9 20 20 30 31 = (None, None, None, None)"
  by (simp add: clipline_def)

text \<open>C1. A diagonal segment of width 1 for which the clipping helper returns its
  sentinel of four \<^verbatim>\<open>None\<close> is not skipped: line 157 converts the returned values with
  \<^verbatim>\<open>int\<close> before line 158 looks for the sentinel, and \<^verbatim>\<open>int(None)\<close> raises
  \<^verbatim>\<open>TypeError\<close>. Whatever the helper returns, a call with one diagonal segment never
  completes without an effect: it raises or it stores a pixel.\<close>

theorem line_outside_segment_raises:
  assumes "prepare_color c target = Inr color" "get_target_surface target = Inr s"
    and "BytesPerPixel (format s) \<noteq> 0" "BytesPerPixel (format s) \<noteq> 3"
    and "x1 \<noteq> x2" "y1 \<noteq> y2"
  shows "(clip (rect_x (clip_rect s)) (rect_y (clip_rect s))
            (rect_x (clip_rect s) + rect_w (clip_rect s) - 1)
            (rect_y (clip_rect s) + rect_h (clip_rect s) - 1) x1 y1 x2 y2
            = (None, None, None, None) \<longrightarrow>
          line clip target c [x1, y1, x2, y2] 1 = Some (Some TypeError, []))
       \<and> line clip target c [x1, y1, x2, y2] 1 \<noteq> Some (None, [])"
proof -
  define left where "left = rect_x (clip_rect s)"
  define top' where "top' = rect_y (clip_rect s)"
  define right where "right = rect_x (clip_rect s) + rect_w (clip_rect s) - 1"
  define bottom where "bottom = rect_y (clip_rect s) + rect_h (clip_rect s) - 1"
  have l: "line clip target c [x1, y1, x2, y2] 1 =
     draw_segments clip color 1 (surface_frac s) left top' right bottom [x1, y1, x2, y2] []"
    using line_segments [OF _ assms(1,2) _ assms(3,4), of 1 "[x1, y1, x2, y2]" clip]
    by (simp add: left_def top'_def right_def bottom_def)
  obtain cx1 cy1 cx2 cy2 where
    c: "clip left top' right bottom x1 y1 x2 y2 = (cx1, cy1, cx2, cy2)"
    by (metis prod_cases4)
  have never: "line clip target c [x1, y1, x2, y2] 1 \<noteq> Some (None, [])"
  proof (cases "cx1 = None \<or> cy1 = None \<or> cx2 = None \<or> cy2 = None")
    case True
    show ?thesis
      unfolding l diagonal_sentinel [where clip = clip and left = left and top' = top'
          and right = right and bottom = bottom, OF assms(5,6) c True]
      by simp
  next
    case False
    then obtain a b c' d where
      c2: "clip left top' right bottom x1 y1 x2 y2 = (Some a, Some b, Some c', Some d)"
      using c by auto
    from rasterize_total [of "surface_frac s" color "trunc a" "trunc b" "trunc c'" "trunc d" "[]"]
    obtain pts where pts:
      "rasterize (surface_frac s) color (trunc a) (trunc b) (trunc c') (trunc d) []
         = Some ([] @ map (px (surface_frac s) color) pts)" "pts \<noteq> []"
      by blast
    show ?thesis
      unfolding l diagonal_drawn [where clip = clip and left = left and top' = top'
          and right = right and bottom = bottom, OF assms(5,6) c2] pts(1)
      using pts(2) by simp
  qed
  have "line clip target c [x1, y1, x2, y2] 1 = Some (Some TypeError, [])"
    if "clip left top' right bottom x1 y1 x2 y2 = (None, None, None, None)"
    unfolding l
    by (rule diagonal_sentinel [where clip = clip and left = left and top' = top'
          and right = right and bottom = bottom, OF assms(5,6) that]) simp
  then show ?thesis using never by (simp add: left_def top'_def right_def bottom_def)
qed

theorem line_outside_segment_raises_witness:
  "line clipline (Surface surface10) red [20, 20, 30, 31] 1 = Some (Some TypeError, [])"
  using line_outside_segment_raises [where clip = clipline and target = "Surface surface10"
      and c = red and s = surface10 and ?x1.0 = 20 and ?y1.0 = 20 and ?x2.0 = 30
      and ?y2.0 = 31, OF surface10_color]
    clipline_outside
  by (simp add: surface10_fields)






subsection \<open>Writes stay inside the clip rectangle\<close>















end
